theory Spec2Isabelle
  imports Main "HOL-Library.Word"
begin

section \<open>The test DNS server (dns-srv): data model\<close>

text \<open>
  The embedded program is the Go program \<open>dns-srv\<close> (package \<open>main\<close> with
  \<open>testSrv\<close>, \<open>setTXT\<close>, \<open>dnsHandler\<close>, \<open>lookupStaticIP\<close>, \<open>allHosts\<close>,
  \<open>loadHosts\<close> and \<open>readHosts\<close>). Go strings are byte strings, here \<open>string\<close>.
  Values of \<open>net.IP\<close> are only produced by \<open>net.ParseIP\<close> and copied, never inspected,
  so the address type is a type parameter \<open>'ip\<close> and \<open>net.ParseIP\<close> (Go standard
  library) is a parameter \<open>ParseIP\<close> of the functions that call it; \<open>None\<close> is the
  nil address. \<open>strings.ToLower\<close> and \<open>json.Unmarshal\<close> are parameters of \<open>setTXT\<close> in
  the same way.
\<close>

subsection \<open>Errors and panics\<close>

datatype error = EOF | ErrNotExist | ErrOther string

datatype panic = IndexOutOfRange

subsection \<open>DNS constants of the miekg/dns library\<close>

definition TypeA :: "16 word" where "TypeA = 1"
definition TypeSOA :: "16 word" where "TypeSOA = 6"
definition TypeMX :: "16 word" where "TypeMX = 15"
definition TypeTXT :: "16 word" where "TypeTXT = 16"
definition TypeCAA :: "16 word" where "TypeCAA = 257"
definition ClassINET :: "16 word" where "ClassINET = 1"
definition RcodeSuccess :: int where "RcodeSuccess = 0"
definition RcodeServerFailure :: int where "RcodeServerFailure = 2"

subsection \<open>DNS messages\<close>

record question =
  Name :: string
  Qtype :: "16 word"
  Qclass :: "16 word"

record RR_Header =
  Hdr_Name :: string
  Rrtype :: "16 word"
  Class :: "16 word"
  Ttl :: "32 word"

text \<open>
  The resource records the handler builds: \<open>dns.A\<close> (header, address), \<open>dns.MX\<close>
  (header, preference, exchange), \<open>dns.TXT\<close> (header, strings), \<open>dns.CAA\<close> (header, tag,
  value) and \<open>dns.SOA\<close> (header, ns, mbox, serial, refresh, retry, expire, minttl).
\<close>

datatype 'ip RR =
    RR_A RR_Header "'ip option"
  | RR_MX RR_Header "16 word" string
  | RR_TXT RR_Header "string list"
  | RR_CAA RR_Header string string
  | RR_SOA RR_Header string string "32 word" "32 word" "32 word" "32 word" "32 word"

text \<open>
  The reply under construction: its response code, answer section and authority section.
  The header bits and the echoed question that \<open>SetReply\<close> copies from the request are
  not modelled.
\<close>

record 'ip Msg =
  Rcode :: int
  Answer :: "'ip RR list"
  Ns :: "'ip RR list"

subsection \<open>Server state: the TXT store and the hosts cache\<close>

text \<open>
  \<open>testSrv.txtRecords\<close> is a \<open>map[string]string\<close>; the lock \<open>testSrv.mu\<close> is not
  modelled (the model is sequential). The package variables \<open>hosts\<close> (nil before the
  first load) and \<open>hostsTime\<close> (a \<open>time.Time\<close>, here an instant on the integer line,
  \<open>Before\<close> being \<open><\<close>) form the hosts cache.
\<close>

record testSrv =
  txtRecords :: "string \<rightharpoonup> string"

type_synonym 'ip hostmap = "string \<rightharpoonup> 'ip list"

record 'ip cache =
  hosts :: "'ip hostmap option"
  hostsTime :: int

subsection \<open>The outside world\<close>

text \<open>
  A \<open>bufio.Reader\<close> over the opened file: the bytes still to be read, and the error the
  underlying read ends with instead of end-of-file, if any.
\<close>

record reader =
  rd_data :: string
  rd_fail :: "error option"

text \<open>
  What the handler observes outside the process: the environment variable \<open>FAKE_DNS\<close>
  (\<open>None\<close> when unset), the result of \<open>os.Stat("/etc/hosts")\<close> (an error or the
  modification time) and the result of \<open>os.Open("/etc/hosts")\<close> (an error or the file).
\<close>

record world =
  FAKE_DNS :: "string option"
  Stat :: "error + int"
  Open :: "error + reader"

definition Getenv :: "string option \<Rightarrow> string" where
  "Getenv v = (case v of None \<Rightarrow> [] | Some s \<Rightarrow> s)"

section \<open>String primitives of the Go standard library\<close>

text \<open>\<open>strings.TrimRight(s, ".")\<close>: every trailing dot is removed.\<close>

definition TrimRight_dot :: "string \<Rightarrow> string" where
  "TrimRight_dot s = rev (dropWhile (\<lambda>c. c = CHR ''.'') (rev s))"

text \<open>
  Modelled from the spec: \<open>strings.TrimSpace\<close> (Go standard library), that is
  \<open>TrimRightFunc(TrimLeftFunc(s, unicode.IsSpace), unicode.IsSpace)\<close>: the leading and then
  the trailing white-space runes are removed. On the UTF-8 bytes of a Go string the
  white-space runes are tab, newline, vertical tab, form feed, carriage return and space
  (one byte each), U+0085 and U+00A0 (two bytes each), and U+1680, U+2000 to U+200A, U+2028,
  U+2029, U+202F, U+205F and U+3000 (three bytes each). A byte sequence that is no valid
  encoding decodes to the replacement rune, which is no white space. Decoding from the end
  starts at the nearest byte that can begin a rune, which for a string ending with one of
  these encodings is the first byte of that encoding.
\<close>

definition space_runes :: "string list" where
  "space_runes =
     [[CHR 0x09], [CHR 0x0A], [CHR 0x0B], [CHR 0x0C], [CHR 0x0D], [CHR 0x20],
      [CHR 0xC2, CHR 0x85], [CHR 0xC2, CHR 0xA0],
      [CHR 0xE1, CHR 0x9A, CHR 0x80],
      [CHR 0xE2, CHR 0x80, CHR 0x80], [CHR 0xE2, CHR 0x80, CHR 0x81],
      [CHR 0xE2, CHR 0x80, CHR 0x82], [CHR 0xE2, CHR 0x80, CHR 0x83],
      [CHR 0xE2, CHR 0x80, CHR 0x84], [CHR 0xE2, CHR 0x80, CHR 0x85],
      [CHR 0xE2, CHR 0x80, CHR 0x86], [CHR 0xE2, CHR 0x80, CHR 0x87],
      [CHR 0xE2, CHR 0x80, CHR 0x88], [CHR 0xE2, CHR 0x80, CHR 0x89],
      [CHR 0xE2, CHR 0x80, CHR 0x8A],
      [CHR 0xE2, CHR 0x80, CHR 0xA8], [CHR 0xE2, CHR 0x80, CHR 0xA9],
      [CHR 0xE2, CHR 0x80, CHR 0xAF], [CHR 0xE2, CHR 0x81, CHR 0x9F],
      [CHR 0xE3, CHR 0x80, CHR 0x80]]"

text \<open>
  \<open>trim_runes es s\<close> removes from the front of \<open>s\<close> every leading occurrence of one of
  the byte sequences \<open>es\<close>, as \<open>TrimLeftFunc\<close> does rune by rune; on the reversed string
  with the reversed encodings it is \<open>TrimRightFunc\<close>.
\<close>

fun trim_runes :: "string list \<Rightarrow> string \<Rightarrow> string" where
  "trim_runes es [] = []"
| "trim_runes es (c # cs) =
     (case find (\<lambda>e. e \<noteq> [] \<and> take (length e) (c # cs) = e) es of
        None \<Rightarrow> c # cs
      | Some e \<Rightarrow> trim_runes es (drop (length e - 1) cs))"

definition TrimSpace :: "string \<Rightarrow> string" where
  "TrimSpace s = rev (trim_runes (map rev space_runes) (rev (trim_runes space_runes s)))"

text \<open>
  Modelled from the spec: \<open>hostsFieldRE.Split(l, -1)\<close> with
  \<open>hostsFieldRE = regexp.MustCompile("\\s+")\<close>: the line is cut at every maximal run of
  the characters of the class \<open>\s\<close> (tab, newline, form feed, carriage return, space);
  a run at the start or at the end of the line leaves an empty field there. \<open>Split_from\<close>
  scans the line with the field read so far (reversed) and a flag telling that the scan
  is inside a run.
\<close>

definition reSpace :: "char \<Rightarrow> bool" where
  "reSpace c = ((of_char c :: nat) \<in> {9, 10, 12, 13, 32})"

fun Split_from :: "bool \<Rightarrow> string \<Rightarrow> string \<Rightarrow> string list" where
  "Split_from in_run cur [] = [rev cur]"
| "Split_from in_run cur (c # cs) =
     (if reSpace c
      then (if in_run then Split_from True [] cs else rev cur # Split_from True [] cs)
      else Split_from False (c # cur) cs)"

definition Split :: "string \<Rightarrow> string list" where
  "Split l = Split_from False [] l"

text \<open>
  \<open>br.ReadString('\n')\<close>: the bytes up to and including the first newline and no error;
  when no newline is left, all remaining bytes together with the error that ends the
  input (\<open>io.EOF\<close> unless the underlying read failed).
\<close>

definition ReadString :: "reader \<Rightarrow> string \<times> error option \<times> reader" where
  "ReadString br =
     (let d = rd_data br in
      if CHR 0x0A \<in> set d
      then (takeWhile (\<lambda>c. c \<noteq> CHR 0x0A) d @ [CHR 0x0A], None,
            br\<lparr>rd_data := tl (dropWhile (\<lambda>c. c \<noteq> CHR 0x0A) d)\<rparr>)
      else (d, Some (case rd_fail br of None \<Rightarrow> EOF | Some e \<Rightarrow> e), br\<lparr>rd_data := []\<rparr>))"

section \<open>The hosts resolver\<close>

text \<open>The map read \<open>hm[name]\<close>: the nil slice when the key is missing.\<close>

definition index_map :: "'ip hostmap \<Rightarrow> string \<Rightarrow> 'ip list" where
  "index_map hm name = (case hm name of None \<Rightarrow> [] | Some ips \<Rightarrow> ips)"

text \<open>
  The inner loop \<open>for _, name := range fs[1:] { ret[name] = append(ret[name], addr) }\<close>.
\<close>

fun add_names :: "'ip \<Rightarrow> string list \<Rightarrow> 'ip hostmap \<Rightarrow> 'ip hostmap" where
  "add_names addr [] ret = ret"
| "add_names addr (name # names) ret =
     add_names addr names (ret(name \<mapsto> index_map ret name @ [addr]))"

text \<open>
  The body of the loop of \<open>readHosts\<close> once a line has been read without error: trim,
  skip blank and comment lines, split, parse the first field, skip the line when it is
  no address, else add every further field. The line is never empty after the first
  test, so \<open>l[0]\<close> and \<open>fs[0]\<close> exist (\<open>Split\<close> never returns the empty list).
\<close>

definition hosts_line :: "(string \<Rightarrow> 'ip option) \<Rightarrow> string \<Rightarrow> 'ip hostmap \<Rightarrow> 'ip hostmap" where
  "hosts_line ParseIP l0 ret =
     (let l = TrimSpace l0 in
      if l = [] \<or> hd l = CHR ''#'' then ret
      else let fs = Split l in
        (case ParseIP (hd fs) of
           None \<Rightarrow> ret
         | Some addr \<Rightarrow> add_names addr (tl fs) ret))"

function readHosts_loop ::
  "(string \<Rightarrow> 'ip option) \<Rightarrow> reader \<Rightarrow> 'ip hostmap \<Rightarrow> error + 'ip hostmap" where
  "readHosts_loop ParseIP br ret =
     (case ReadString br of
        (l, Some err, br') \<Rightarrow> if err = EOF then Inr ret else Inl err
      | (l, None, br') \<Rightarrow> readHosts_loop ParseIP br' (hosts_line ParseIP l ret))"
  by pat_completeness auto
termination
  apply (relation "measure (\<lambda>(p, br, ret). length (rd_data br))")
   apply simp
  apply (auto simp: ReadString_def Let_def split: if_splits)
  subgoal for br
    using length_dropWhile_le [of "\<lambda>c. c \<noteq> CHR 0x0A" "rd_data br"]
    by (cases "dropWhile (\<lambda>c. c \<noteq> CHR 0x0A) (rd_data br)") auto
  done

definition readHosts :: "(string \<Rightarrow> 'ip option) \<Rightarrow> reader \<Rightarrow> error + 'ip hostmap" where
  "readHosts ParseIP r = readHosts_loop ParseIP r Map.empty"

definition loadHosts :: "(string \<Rightarrow> 'ip option) \<Rightarrow> world \<Rightarrow> error + 'ip hostmap" where
  "loadHosts ParseIP w =
     (case Open w of
        Inl err \<Rightarrow> Inl err
      | Inr f \<Rightarrow> readHosts ParseIP f)"

text \<open>
  \<open>allHosts\<close> returns the table or an error, and the cache as it leaves it.
\<close>

definition allHosts ::
  "(string \<Rightarrow> 'ip option) \<Rightarrow> world \<Rightarrow> 'ip cache \<Rightarrow> (error + 'ip hostmap) \<times> 'ip cache" where
  "allHosts ParseIP w c =
     (case Stat w of
        Inl err \<Rightarrow> (Inl err, c)
      | Inr modTime \<Rightarrow>
          if hosts c = None \<or> hostsTime c < modTime
          then (case loadHosts ParseIP w of
                  Inl err \<Rightarrow> (Inl err, c)
                | Inr hm \<Rightarrow> (Inr hm, \<lparr>hosts = Some hm, hostsTime = modTime\<rparr>))
          else (case hosts c of
                  Some hm \<Rightarrow> (Inr hm, c)
                | None \<Rightarrow> (Inr Map.empty, c)))"

definition lookupStaticIP ::
  "(string \<Rightarrow> 'ip option) \<Rightarrow> world \<Rightarrow> 'ip cache \<Rightarrow> string \<Rightarrow> (error + 'ip list) \<times> 'ip cache" where
  "lookupStaticIP ParseIP w c name =
     (case allHosts ParseIP w c of
        (Inl err, c') \<Rightarrow> if err = ErrNotExist then (Inr [], c') else (Inl err, c')
      | (Inr hm, c') \<Rightarrow> (Inr (index_map hm name), c'))"

section \<open>The query responder\<close>

text \<open>
  The body of the loop \<open>for _, q := range r.Question\<close> of \<open>dnsHandler\<close>, on the reply \<open>m\<close>
  and the hosts cache. \<open>fakeDNS\<close> is the local variable of that name. \<open>continue\<close> returns the
  state for the next question; \<open>ips[0]\<close> on an empty slice is the run-time panic
  "index out of range", which ends the handler. \<open>m.SetRcode(r, dns.RcodeServerFailure)\<close>
  sets the response code and leaves the answer and authority sections as they are.
\<close>

definition answer_question ::
  "(string \<Rightarrow> 'ip option) \<Rightarrow> world \<Rightarrow> testSrv \<Rightarrow> string \<Rightarrow> question
     \<Rightarrow> 'ip Msg \<times> 'ip cache \<Rightarrow> panic + 'ip Msg \<times> 'ip cache" where
  "answer_question ParseIP w ts fakeDNS q st =
     (let m = fst st; c = snd st in
      if Qtype q = TypeA then
        (let hdr = \<lparr>Hdr_Name = Name q, Rrtype = TypeA, Class = ClassINET, Ttl = 0\<rparr> in
         if fakeDNS = ''hosts'' then
           (case lookupStaticIP ParseIP w c (TrimRight_dot (Name q)) of
              (Inl err, c') \<Rightarrow> Inr (m\<lparr>Rcode := RcodeServerFailure\<rparr>, c')
            | (Inr ips, c') \<Rightarrow>
                (case ips of
                   [] \<Rightarrow> Inl IndexOutOfRange
                 | ip # _ \<Rightarrow> Inr (m\<lparr>Answer := Answer m @ [RR_A hdr (Some ip)]\<rparr>, c')))
         else Inr (m\<lparr>Answer := Answer m @ [RR_A hdr (ParseIP fakeDNS)]\<rparr>, c))
      else if Qtype q = TypeMX then
        (let hdr = \<lparr>Hdr_Name = Name q, Rrtype = TypeMX, Class = ClassINET, Ttl = 0\<rparr> in
         Inr (m\<lparr>Answer := Answer m @ [RR_MX hdr 10 (''mail.'' @ Name q)]\<rparr>, c))
      else if Qtype q = TypeTXT then
        (case txtRecords ts (Name q) of
           None \<Rightarrow> Inr (m, c)
         | Some value \<Rightarrow>
             (let hdr = \<lparr>Hdr_Name = Name q, Rrtype = TypeTXT, Class = ClassINET, Ttl = 0\<rparr> in
              Inr (m\<lparr>Answer := Answer m @ [RR_TXT hdr [value]]\<rparr>, c)))
      else if Qtype q = TypeCAA then
        (if Name q = ''bad-caa-reserved.com.'' \<or> Name q = ''good-caa-reserved.com.'' then
           (let hdr = \<lparr>Hdr_Name = Name q, Rrtype = TypeCAA, Class = ClassINET, Ttl = 0\<rparr>;
                val = (if Name q = ''bad-caa-reserved.com.'' then ''sad-hacker-ca.invalid''
                       else if Name q = ''good-caa-reserved.com.'' then ''happy-hacker-ca.invalid''
                       else [])
            in Inr (m\<lparr>Answer := Answer m @ [RR_CAA hdr ''issue'' val]\<rparr>, c))
         else Inr (m, c))
      else Inr (m, c))"

fun answer_questions ::
  "(string \<Rightarrow> 'ip option) \<Rightarrow> world \<Rightarrow> testSrv \<Rightarrow> string \<Rightarrow> question list
     \<Rightarrow> 'ip Msg \<times> 'ip cache \<Rightarrow> panic + 'ip Msg \<times> 'ip cache" where
  "answer_questions ParseIP w ts fakeDNS [] st = Inr st"
| "answer_questions ParseIP w ts fakeDNS (q # qs) st =
     (case answer_question ParseIP w ts fakeDNS q st of
        Inl p \<Rightarrow> Inl p
      | Inr st' \<Rightarrow> answer_questions ParseIP w ts fakeDNS qs st')"

text \<open>
  The first lines of \<open>dnsHandler\<close>: \<open>fakeDNS\<close> is \<open>os.Getenv("FAKE_DNS")\<close>, replaced by
  \<open>"127.0.0.1"\<close> when that is the empty string (\<open>os.Getenv\<close> gives the empty string for an
  unset variable).
\<close>

definition fakeDNS_of :: "world \<Rightarrow> string" where
  "fakeDNS_of w = (if Getenv (FAKE_DNS w) = [] then ''127.0.0.1'' else Getenv (FAKE_DNS w))"

text \<open>
  \<open>dnsHandler\<close> on the questions \<open>r.Question\<close> of the request: the reply written with
  \<open>w.WriteMsg(m)\<close> and the hosts cache afterwards, or the panic that ended the handler
  before anything was written.
\<close>

definition dnsHandler ::
  "(string \<Rightarrow> 'ip option) \<Rightarrow> world \<Rightarrow> testSrv \<Rightarrow> 'ip cache \<Rightarrow> question list
     \<Rightarrow> panic + 'ip Msg \<times> 'ip cache" where
  "dnsHandler ParseIP w ts c r =
     (let m = \<lparr>Rcode = RcodeSuccess, Answer = [], Ns = []\<rparr> in
      case answer_questions ParseIP w ts (fakeDNS_of w) r (m, c) of
        Inl p \<Rightarrow> Inl p
      | Inr (m', c') \<Rightarrow>
          (let auth = RR_SOA \<lparr>Hdr_Name = ''boulder.invalid.'', Rrtype = TypeSOA,
                               Class = ClassINET, Ttl = 0\<rparr>
                        ''ns.boulder.invalid.'' ''master.boulder.invalid.'' 1 1 1 1 1
           in Inr (m'\<lparr>Ns := Ns m' @ [auth]\<rparr>, c')))"

section \<open>The control API\<close>

record setRequest =
  Host :: string
  Value :: string

text \<open>
  The parts of the \<open>http.Request\<close> that \<open>setTXT\<close> reads: \<open>r.Method\<close>, \<open>r.URL.Path\<close> and
  the result of \<open>ioutil.ReadAll(r.Body)\<close>.
\<close>

record http_request =
  Method :: string
  Path :: string
  Body :: "error + string"

text \<open>
  \<open>setTXT\<close> returns the status code written to the response and the server afterwards.
  \<open>strings.ToLower\<close> and \<open>json.Unmarshal\<close> into a \<open>setRequest\<close> (Go standard library) are
  the parameters \<open>ToLower\<close> and \<open>Unmarshal\<close>. The log line is not modelled.
\<close>

definition setTXT ::
  "(string \<Rightarrow> string) \<Rightarrow> (string \<Rightarrow> error + setRequest) \<Rightarrow> testSrv \<Rightarrow> http_request
     \<Rightarrow> nat \<times> testSrv" where
  "setTXT ToLower Unmarshal ts r =
     (if Path r \<noteq> ''/set-txt'' then (404, ts)
      else if Method r \<noteq> ''POST'' then (405, ts)
      else (case Body r of
              Inl err \<Rightarrow> (400, ts)
            | Inr msg \<Rightarrow>
                (case Unmarshal msg of
                   Inl err \<Rightarrow> (400, ts)
                 | Inr sr \<Rightarrow>
                     if Host sr = [] then (400, ts)
                     else (200, ts\<lparr>txtRecords := (txtRecords ts)(ToLower (Host sr) \<mapsto> Value sr)\<rparr>))))"

section \<open>The launch script\<close>

text \<open>
  \<open>run-docker.sh\<close>, before it starts the container with \<open>-e FAKE_DNS="$FAKE_DNS"\<close>:
  \<open>if [ -z "${FAKE_DNS}" ] ; then FAKE_DNS=hosts ; fi\<close>. The variable is always set
  inside the container.
\<close>

definition run_docker_FAKE_DNS :: "string option \<Rightarrow> string option" where
  "run_docker_FAKE_DNS v = (if Getenv v = [] then Some ''hosts'' else Some (Getenv v))"

section \<open>Sample inputs\<close>

text \<open>
  Instances of the standard-library parameters at the inputs used below: on these
  strings \<open>sample_ParseIP\<close> agrees with \<open>net.ParseIP\<close> (the address is written as its
  four bytes) and \<open>sample_Unmarshal\<close> with \<open>json.Unmarshal\<close> into a \<open>setRequest\<close>.
\<close>

text \<open>
  \<open>ascii_ToLower\<close> is \<open>strings.ToLower\<close> on hosts made of ASCII characters only
  (\<open>is_ascii\<close>): the letters \<open>A\<close> to \<open>Z\<close> become \<open>a\<close> to \<open>z\<close> and every other character
  stays.
\<close>

definition upper_letters :: string where
  "upper_letters = ''ABCDEFGHIJKLMNOPQRSTUVWXYZ''"

definition lower_letters :: string where
  "lower_letters = ''abcdefghijklmnopqrstuvwxyz''"

definition lower_char :: "char \<Rightarrow> char" where
  "lower_char c =
     (case map_of (zip upper_letters lower_letters) c of None \<Rightarrow> c | Some l \<Rightarrow> l)"

definition ascii_ToLower :: "string \<Rightarrow> string" where
  "ascii_ToLower s = map lower_char s"


definition sample_ParseIP :: "string \<Rightarrow> nat list option" where
  "sample_ParseIP s =
     (if s = ''127.0.0.1'' then Some [127, 0, 0, 1]
      else if s = ''10.0.0.1'' then Some [10, 0, 0, 1]
      else if s = ''10.0.0.2'' then Some [10, 0, 0, 2]
      else None)"

definition body_1 :: string where
  \<open>body_1 = ''{"host": "Example.COM", "value": "token-1"}''\<close>

definition body_2 :: string where
  \<open>body_2 = ''{"host": "Example.COM", "value": "token-2"}''\<close>

definition body_3 :: string where
  \<open>body_3 = ''{"host": "example.com.", "value": "token-3"}''\<close>

definition body_4 :: string where
  \<open>body_4 = ''{"host": "b.example", "value": "token-1"}''\<close>

definition sample_Unmarshal :: "string \<Rightarrow> error + setRequest" where
  "sample_Unmarshal msg =
     (if msg = ''{}'' then Inr \<lparr>Host = [], Value = []\<rparr>
      else if msg = body_1 then Inr \<lparr>Host = ''Example.COM'', Value = ''token-1''\<rparr>
      else if msg = body_2 then Inr \<lparr>Host = ''Example.COM'', Value = ''token-2''\<rparr>
      else if msg = body_3 then Inr \<lparr>Host = ''example.com.'', Value = ''token-3''\<rparr>
      else if msg = body_4 then Inr \<lparr>Host = ''b.example'', Value = ''token-1''\<rparr>
      else Inl (ErrOther ''invalid character''))"

text \<open>
  A hosts file of six lines (a comment, an entry with two names, a blank line, a line whose
  first field is no address, a second entry for \<open>lo\<close>, and a last entry that no newline
  ends) with the table the parser builds from it, and a rewritten file that maps
  \<open>localhost\<close> elsewhere with its table.
\<close>

definition hosts_file :: string where
  "hosts_file =
     ''# static table'' @ [CHR 0x0A] @
     ''127.0.0.1  localhost lo'' @ [CHR 0x0A] @
     [CHR 0x0A] @
     ''bogus name'' @ [CHR 0x0A] @
     ''10.0.0.1 lo'' @ [CHR 0x0A] @
     ''10.0.0.2 tail''"

definition hosts_file' :: string where
  "hosts_file' = ''10.0.0.2 localhost'' @ [CHR 0x0A]"

definition sample_table :: "nat list hostmap" where
  "sample_table = [''localhost'' \<mapsto> [[127, 0, 0, 1]], ''lo'' \<mapsto> [[127, 0, 0, 1], [10, 0, 0, 1]]]"

definition sample_table' :: "nat list hostmap" where
  "sample_table' = [''localhost'' \<mapsto> [[10, 0, 0, 2]]]"

section \<open>The control API: status codes and overwriting\<close>

text \<open>
  C6. Every request to the control API gets one of four status codes, decided in this
  order: a path other than \<open>/set-txt\<close> gets 404 Not Found whatever the method; a method
  other than \<open>POST\<close> on \<open>/set-txt\<close> gets 405 Method Not Allowed; a \<open>POST\<close> to \<open>/set-txt\<close>
  whose body cannot be read or parsed, or whose \<open>host\<close> is empty, gets 400 Bad Request;
  a \<open>POST\<close> to \<open>/set-txt\<close> with a parseable body and a non-empty \<open>host\<close> gets 200 OK.
  Every request answered with 404, 405 or 400 leaves the record store as it was.
\<close>

theorem setTXT_status:
  "(Path r \<noteq> ''/set-txt'' \<longrightarrow> setTXT ToLower Unmarshal ts r = (404, ts)) \<and>
   (Path r = ''/set-txt'' \<and> Method r \<noteq> ''POST'' \<longrightarrow> setTXT ToLower Unmarshal ts r = (405, ts)) \<and>
   (Path r = ''/set-txt'' \<and> Method r = ''POST'' \<and>
      (Body r = Inl e \<or> (Body r = Inr msg \<and> Unmarshal msg = Inl e) \<or>
       (Body r = Inr msg \<and> Unmarshal msg = Inr sr \<and> Host sr = [])) \<longrightarrow>
      setTXT ToLower Unmarshal ts r = (400, ts)) \<and>
   (Path r = ''/set-txt'' \<and> Method r = ''POST'' \<and> Body r = Inr msg \<and>
      Unmarshal msg = Inr sr \<and> Host sr \<noteq> [] \<longrightarrow>
      fst (setTXT ToLower Unmarshal ts r) = 200)"
  by (auto simp: setTXT_def)

theorem setTXT_status_witness:
  "setTXT ascii_ToLower sample_Unmarshal \<lparr>txtRecords = Map.empty\<rparr>
     \<lparr>Method = ''POST'', Path = ''/unknown'', Body = Inr body_1\<rparr> =
     (404, \<lparr>txtRecords = Map.empty\<rparr>) \<and>
   setTXT ascii_ToLower sample_Unmarshal \<lparr>txtRecords = Map.empty\<rparr>
     \<lparr>Method = ''GET'', Path = ''/set-txt'', Body = Inr body_1\<rparr> =
     (405, \<lparr>txtRecords = Map.empty\<rparr>) \<and>
   setTXT ascii_ToLower sample_Unmarshal \<lparr>txtRecords = Map.empty\<rparr>
     \<lparr>Method = ''POST'', Path = ''/set-txt'', Body = Inl (ErrOther ''unexpected EOF'')\<rparr> =
     (400, \<lparr>txtRecords = Map.empty\<rparr>) \<and>
   setTXT ascii_ToLower sample_Unmarshal \<lparr>txtRecords = Map.empty\<rparr>
     \<lparr>Method = ''POST'', Path = ''/set-txt'', Body = Inr ''{''\<rparr> =
     (400, \<lparr>txtRecords = Map.empty\<rparr>) \<and>
   setTXT ascii_ToLower sample_Unmarshal \<lparr>txtRecords = Map.empty\<rparr>
     \<lparr>Method = ''POST'', Path = ''/set-txt'', Body = Inr ''{}''\<rparr> =
     (400, \<lparr>txtRecords = Map.empty\<rparr>) \<and>
   fst (setTXT ascii_ToLower sample_Unmarshal \<lparr>txtRecords = Map.empty\<rparr>
     \<lparr>Method = ''POST'', Path = ''/set-txt'', Body = Inr body_1\<rparr>) = 200"
  using
    setTXT_status [where r = "\<lparr>Method = ''POST'', Path = ''/unknown'', Body = Inr body_1\<rparr>"
      and Unmarshal = sample_Unmarshal and ToLower = ascii_ToLower and ts = "\<lparr>txtRecords = Map.empty\<rparr>"]
    setTXT_status [where r = "\<lparr>Method = ''GET'', Path = ''/set-txt'', Body = Inr body_1\<rparr>"
      and Unmarshal = sample_Unmarshal and ToLower = ascii_ToLower and ts = "\<lparr>txtRecords = Map.empty\<rparr>"]
    setTXT_status [where r = "\<lparr>Method = ''POST'', Path = ''/set-txt'',
        Body = Inl (ErrOther ''unexpected EOF'')\<rparr>"
      and Unmarshal = sample_Unmarshal and ToLower = ascii_ToLower and ts = "\<lparr>txtRecords = Map.empty\<rparr>"
      and e = "ErrOther ''unexpected EOF''"]
    setTXT_status [where r = "\<lparr>Method = ''POST'', Path = ''/set-txt'', Body = Inr ''{''\<rparr>"
      and Unmarshal = sample_Unmarshal and ToLower = ascii_ToLower and ts = "\<lparr>txtRecords = Map.empty\<rparr>"
      and msg = "''{''" and e = "ErrOther ''invalid character''"]
    setTXT_status [where r = "\<lparr>Method = ''POST'', Path = ''/set-txt'', Body = Inr ''{}''\<rparr>"
      and Unmarshal = sample_Unmarshal and ToLower = ascii_ToLower and ts = "\<lparr>txtRecords = Map.empty\<rparr>"
      and msg = "''{}''" and sr = "\<lparr>Host = [], Value = []\<rparr>"]
    setTXT_status [where r = "\<lparr>Method = ''POST'', Path = ''/set-txt'', Body = Inr body_1\<rparr>"
      and Unmarshal = sample_Unmarshal and ToLower = ascii_ToLower and ts = "\<lparr>txtRecords = Map.empty\<rparr>"
      and msg = body_1 and sr = "\<lparr>Host = ''Example.COM'', Value = ''token-1''\<rparr>"]
  by (simp add: sample_Unmarshal_def body_1_def body_2_def body_3_def body_4_def)

text \<open>
  C4. For every non-empty host \<open>h\<close> and values \<open>v1\<close>, \<open>v2\<close>, with \<open>ToLower\<close> standing for
  \<open>strings.ToLower\<close> whatever it does to \<open>h\<close>: a publish request for \<open>h\<close> stores its value
  under \<open>ToLower h\<close>, and publishing \<open>v1\<close> and then \<open>v2\<close> for \<open>h\<close> succeeds twice and leaves
  the record store equal to the store before both requests with \<open>v2\<close> under \<open>ToLower h\<close>:
  that key holds exactly \<open>v2\<close>, the result does not depend on \<open>v1\<close>, and every other key
  holds what it held before.
\<close>

theorem setTXT_overwrite:
  assumes "Path r1 = ''/set-txt''" and "Method r1 = ''POST''" and "Body r1 = Inr msg1"
    and "Unmarshal msg1 = Inr \<lparr>Host = h, Value = v1\<rparr>"
    and "Path r2 = ''/set-txt''" and "Method r2 = ''POST''" and "Body r2 = Inr msg2"
    and "Unmarshal msg2 = Inr \<lparr>Host = h, Value = v2\<rparr>"
    and "h \<noteq> []"
  shows "setTXT ToLower Unmarshal ts r1 = (200, ts\<lparr>txtRecords := (txtRecords ts)(ToLower h \<mapsto> v1)\<rparr>) \<and>
         setTXT ToLower Unmarshal (snd (setTXT ToLower Unmarshal ts r1)) r2 =
           (200, ts\<lparr>txtRecords := (txtRecords ts)(ToLower h \<mapsto> v2)\<rparr>) \<and>
         txtRecords (snd (setTXT ToLower Unmarshal (snd (setTXT ToLower Unmarshal ts r1)) r2)) (ToLower h) = Some v2 \<and>
         (\<forall>k. k \<noteq> ToLower h \<longrightarrow>
            txtRecords (snd (setTXT ToLower Unmarshal (snd (setTXT ToLower Unmarshal ts r1)) r2)) k = txtRecords ts k)"
  using assms by (simp add: setTXT_def)

theorem setTXT_overwrite_witness:
  "sample_Unmarshal body_1 = Inr \<lparr>Host = ''Example.COM'', Value = ''token-1''\<rparr> \<and>
   sample_Unmarshal body_2 = Inr \<lparr>Host = ''Example.COM'', Value = ''token-2''\<rparr> \<and>
   setTXT ascii_ToLower sample_Unmarshal
     (snd (setTXT ascii_ToLower sample_Unmarshal \<lparr>txtRecords = [''other.example.'' \<mapsto> ''token-1'']\<rparr>
        \<lparr>Method = ''POST'', Path = ''/set-txt'', Body = Inr body_1\<rparr>))
     \<lparr>Method = ''POST'', Path = ''/set-txt'', Body = Inr body_2\<rparr> =
     (200, \<lparr>txtRecords = [''other.example.'' \<mapsto> ''token-1'', ''example.com'' \<mapsto> ''token-2'']\<rparr>)"
proof -
  have u1: "sample_Unmarshal body_1 = Inr \<lparr>Host = ''Example.COM'', Value = ''token-1''\<rparr>"
    by (simp add: sample_Unmarshal_def body_1_def)
  have u2: "sample_Unmarshal body_2 = Inr \<lparr>Host = ''Example.COM'', Value = ''token-2''\<rparr>"
    by (simp add: sample_Unmarshal_def body_1_def body_2_def)
  have low: "ascii_ToLower ''Example.COM'' = ''example.com''"
    by (simp add: ascii_ToLower_def lower_char_def upper_letters_def lower_letters_def)
  have "setTXT ascii_ToLower sample_Unmarshal
     (snd (setTXT ascii_ToLower sample_Unmarshal \<lparr>txtRecords = [''other.example.'' \<mapsto> ''token-1'']\<rparr>
        \<lparr>Method = ''POST'', Path = ''/set-txt'', Body = Inr body_1\<rparr>))
     \<lparr>Method = ''POST'', Path = ''/set-txt'', Body = Inr body_2\<rparr> =
     (200, \<lparr>txtRecords = [''other.example.'' \<mapsto> ''token-1'']\<rparr>
             \<lparr>txtRecords := (txtRecords \<lparr>txtRecords = [''other.example.'' \<mapsto> ''token-1'']\<rparr>)
                (ascii_ToLower ''Example.COM'' \<mapsto> ''token-2'')\<rparr>)"
    by (rule setTXT_overwrite [where ToLower = ascii_ToLower and Unmarshal = sample_Unmarshal
          and ?msg1.0 = body_1 and ?msg2.0 = body_2 and ?v1.0 = "''token-1''",
          THEN conjunct2, THEN conjunct1])
      (simp_all add: u1 u2)
  with u1 u2 low show ?thesis by simp
qed

section \<open>The query responder: TXT and CAA questions\<close>

text \<open>
  C3. For every TXT question, whatever the reply and the hosts cache hold so far, the
  responder looks the question name up in the record store as it is, with no change of
  case and no trimming. When a value is stored under that name the reply gets exactly one
  more answer, a TXT record for the question name holding that one value; when none is,
  the reply is left as it is. In both cases the response code and the hosts cache are
  unchanged and the next question is processed.
\<close>

theorem txt_question:
  assumes "Qtype q = TypeTXT"
  shows "answer_question ParseIP w ts fakeDNS q (m, c) =
           Inr (m\<lparr>Answer := Answer m @
                    (case txtRecords ts (Name q) of
                       None \<Rightarrow> []
                     | Some v \<Rightarrow> [RR_TXT \<lparr>Hdr_Name = Name q, Rrtype = TypeTXT,
                                            Class = ClassINET, Ttl = 0\<rparr> [v]])\<rparr>, c)"
  using assms
  by (simp add: answer_question_def TypeA_def TypeMX_def TypeTXT_def split: option.split)

theorem txt_question_witness:
  "Qtype \<lparr>Name = ''_acme-challenge.example.com.'', Qtype = 16, Qclass = 1\<rparr> = TypeTXT \<and>
   answer_question sample_ParseIP
     \<lparr>FAKE_DNS = None, Stat = Inl ErrNotExist, Open = Inl ErrNotExist\<rparr>
     \<lparr>txtRecords = [''_acme-challenge.example.com.'' \<mapsto> ''token-1'']\<rparr> ''127.0.0.1''
     \<lparr>Name = ''_acme-challenge.example.com.'', Qtype = 16, Qclass = 1\<rparr>
     (\<lparr>Rcode = 0, Answer = [], Ns = []\<rparr>, \<lparr>hosts = None, hostsTime = 0\<rparr>) =
   Inr (\<lparr>Rcode = 0,
          Answer = [RR_TXT \<lparr>Hdr_Name = ''_acme-challenge.example.com.'', Rrtype = 16,
                             Class = 1, Ttl = 0\<rparr> [''token-1'']],
          Ns = []\<rparr>,
        \<lparr>hosts = None, hostsTime = 0\<rparr>)"
  using txt_question [where q = "\<lparr>Name = ''_acme-challenge.example.com.'', Qtype = 16, Qclass = 1\<rparr>"
      and ParseIP = sample_ParseIP
      and w = "\<lparr>FAKE_DNS = None, Stat = Inl ErrNotExist, Open = Inl ErrNotExist\<rparr>"
      and ts = "\<lparr>txtRecords = [''_acme-challenge.example.com.'' \<mapsto> ''token-1'']\<rparr>"
      and fakeDNS = "''127.0.0.1''"
      and m = "\<lparr>Rcode = 0, Answer = [], Ns = []\<rparr>" and c = "\<lparr>hosts = None, hostsTime = 0\<rparr>"]
  by (simp add: TypeTXT_def ClassINET_def)

text \<open>
  C5. For every CAA question, whatever the reply and the hosts cache hold so far: the name
  \<open>bad-caa-reserved.com.\<close> adds exactly one CAA record with tag \<open>issue\<close> and value
  \<open>sad-hacker-ca.invalid\<close>, the name \<open>good-caa-reserved.com.\<close> adds exactly one CAA record
  with tag \<open>issue\<close> and value \<open>happy-hacker-ca.invalid\<close>, and every other name adds no
  record. The response code and the hosts cache are unchanged.
\<close>

theorem caa_question:
  assumes "Qtype q = TypeCAA"
  shows "answer_question ParseIP w ts fakeDNS q (m, c) =
           Inr (m\<lparr>Answer := Answer m @
                    (if Name q = ''bad-caa-reserved.com.''
                     then [RR_CAA \<lparr>Hdr_Name = Name q, Rrtype = TypeCAA, Class = ClassINET,
                                    Ttl = 0\<rparr> ''issue'' ''sad-hacker-ca.invalid'']
                     else if Name q = ''good-caa-reserved.com.''
                     then [RR_CAA \<lparr>Hdr_Name = Name q, Rrtype = TypeCAA, Class = ClassINET,
                                    Ttl = 0\<rparr> ''issue'' ''happy-hacker-ca.invalid'']
                     else [])\<rparr>, c)"
  using assms
  by (simp add: answer_question_def TypeA_def TypeMX_def TypeTXT_def TypeCAA_def Let_def)

theorem caa_question_witness:
  "Qtype \<lparr>Name = ''bad-caa-reserved.com.'', Qtype = 257, Qclass = 1\<rparr> = TypeCAA \<and>
   answer_question sample_ParseIP
     \<lparr>FAKE_DNS = None, Stat = Inl ErrNotExist, Open = Inl ErrNotExist\<rparr>
     \<lparr>txtRecords = Map.empty\<rparr> ''127.0.0.1''
     \<lparr>Name = ''bad-caa-reserved.com.'', Qtype = 257, Qclass = 1\<rparr>
     (\<lparr>Rcode = 0, Answer = [], Ns = []\<rparr>, \<lparr>hosts = None, hostsTime = 0\<rparr>) =
   Inr (\<lparr>Rcode = 0,
          Answer = [RR_CAA \<lparr>Hdr_Name = ''bad-caa-reserved.com.'', Rrtype = 257, Class = 1,
                             Ttl = 0\<rparr> ''issue'' ''sad-hacker-ca.invalid''],
          Ns = []\<rparr>,
        \<lparr>hosts = None, hostsTime = 0\<rparr>) \<and>
   answer_question sample_ParseIP
     \<lparr>FAKE_DNS = None, Stat = Inl ErrNotExist, Open = Inl ErrNotExist\<rparr>
     \<lparr>txtRecords = Map.empty\<rparr> ''127.0.0.1''
     \<lparr>Name = ''good-caa-reserved.com.'', Qtype = 257, Qclass = 1\<rparr>
     (\<lparr>Rcode = 0, Answer = [], Ns = []\<rparr>, \<lparr>hosts = None, hostsTime = 0\<rparr>) =
   Inr (\<lparr>Rcode = 0,
          Answer = [RR_CAA \<lparr>Hdr_Name = ''good-caa-reserved.com.'', Rrtype = 257, Class = 1,
                             Ttl = 0\<rparr> ''issue'' ''happy-hacker-ca.invalid''],
          Ns = []\<rparr>,
        \<lparr>hosts = None, hostsTime = 0\<rparr>) \<and>
   answer_question sample_ParseIP
     \<lparr>FAKE_DNS = None, Stat = Inl ErrNotExist, Open = Inl ErrNotExist\<rparr>
     \<lparr>txtRecords = Map.empty\<rparr> ''127.0.0.1''
     \<lparr>Name = ''example.com.'', Qtype = 257, Qclass = 1\<rparr>
     (\<lparr>Rcode = 0, Answer = [], Ns = []\<rparr>, \<lparr>hosts = None, hostsTime = 0\<rparr>) =
   Inr (\<lparr>Rcode = 0, Answer = [], Ns = []\<rparr>, \<lparr>hosts = None, hostsTime = 0\<rparr>)"
  using
    caa_question [where q = "\<lparr>Name = ''bad-caa-reserved.com.'', Qtype = 257, Qclass = 1\<rparr>"
      and ParseIP = sample_ParseIP
      and w = "\<lparr>FAKE_DNS = None, Stat = Inl ErrNotExist, Open = Inl ErrNotExist\<rparr>"
      and ts = "\<lparr>txtRecords = Map.empty\<rparr>" and fakeDNS = "''127.0.0.1''"
      and m = "\<lparr>Rcode = 0, Answer = [], Ns = []\<rparr>" and c = "\<lparr>hosts = None, hostsTime = 0\<rparr>"]
    caa_question [where q = "\<lparr>Name = ''good-caa-reserved.com.'', Qtype = 257, Qclass = 1\<rparr>"
      and ParseIP = sample_ParseIP
      and w = "\<lparr>FAKE_DNS = None, Stat = Inl ErrNotExist, Open = Inl ErrNotExist\<rparr>"
      and ts = "\<lparr>txtRecords = Map.empty\<rparr>" and fakeDNS = "''127.0.0.1''"
      and m = "\<lparr>Rcode = 0, Answer = [], Ns = []\<rparr>" and c = "\<lparr>hosts = None, hostsTime = 0\<rparr>"]
    caa_question [where q = "\<lparr>Name = ''example.com.'', Qtype = 257, Qclass = 1\<rparr>"
      and ParseIP = sample_ParseIP
      and w = "\<lparr>FAKE_DNS = None, Stat = Inl ErrNotExist, Open = Inl ErrNotExist\<rparr>"
      and ts = "\<lparr>txtRecords = Map.empty\<rparr>" and fakeDNS = "''127.0.0.1''"
      and m = "\<lparr>Rcode = 0, Answer = [], Ns = []\<rparr>" and c = "\<lparr>hosts = None, hostsTime = 0\<rparr>"]
  by (simp add: TypeCAA_def ClassINET_def)

section \<open>The hosts cache\<close>

lemma readHosts_hosts_file:
  "readHosts sample_ParseIP \<lparr>rd_data = hosts_file, rd_fail = None\<rparr> = Inr sample_table"
  by (simp add: readHosts_def hosts_file_def ReadString_def Let_def hosts_line_def TrimSpace_def
      space_runes_def Split_def reSpace_def sample_ParseIP_def index_map_def sample_table_def
      fun_upd_twist)

lemma readHosts_hosts_file':
  "readHosts sample_ParseIP \<lparr>rd_data = hosts_file', rd_fail = None\<rparr> = Inr sample_table'"
  by (simp add: readHosts_def hosts_file'_def ReadString_def Let_def hosts_line_def TrimSpace_def
      space_runes_def Split_def reSpace_def sample_ParseIP_def index_map_def sample_table'_def)

text \<open>
  C7. Across every resolution for which the hosts file can be examined
  (\<open>os.Stat\<close> gives its modification time): when a table is cached and its recorded
  timestamp is not older than the modification time, the cached table is returned and the
  cache is unchanged; otherwise (the timestamp is older, or nothing is cached yet) the
  whole file is parsed again, and when that parse succeeds the new table is returned and
  the cache holds exactly the new table and the file's modification time. A resolution
  that ends in an error leaves the cache as it was. \<open>lookupStaticIP\<close> reads the name in
  that table and leaves the cache as \<open>allHosts\<close> left it. After any successful resolution
  the table just returned is returned again, with the cache unchanged, for as long as the
  file shows no newer modification time.
\<close>

theorem allHosts_cache:
  "(Stat w = Inr modTime \<and> hosts c = Some hm \<and> \<not> hostsTime c < modTime \<longrightarrow>
      allHosts ParseIP w c = (Inr hm, c) \<and>
      lookupStaticIP ParseIP w c name = (Inr (index_map hm name), c)) \<and>
   (Stat w = Inr modTime \<and> (hosts c = None \<or> hostsTime c < modTime) \<and>
      Open w = Inr f \<and> readHosts ParseIP f = Inr hm' \<longrightarrow>
      allHosts ParseIP w c = (Inr hm', \<lparr>hosts = Some hm', hostsTime = modTime\<rparr>) \<and>
      lookupStaticIP ParseIP w c name =
        (Inr (index_map hm' name), \<lparr>hosts = Some hm', hostsTime = modTime\<rparr>)) \<and>
   (allHosts ParseIP w c = (Inl err, c') \<longrightarrow> c' = c) \<and>
   snd (lookupStaticIP ParseIP w c name) = snd (allHosts ParseIP w c) \<and>
   (allHosts ParseIP w c = (Inr hm, c') \<and> Stat w' = Inr modTime' \<and> \<not> hostsTime c' < modTime' \<longrightarrow>
      allHosts ParseIP w' c' = (Inr hm, c'))"
proof -
  have reuse: "allHosts ParseIP w c = (Inr hm, c) \<and>
      lookupStaticIP ParseIP w c name = (Inr (index_map hm name), c)"
    if "Stat w = Inr modTime" "hosts c = Some hm" "\<not> hostsTime c < modTime"
    using that by (simp add: allHosts_def lookupStaticIP_def)
  have reload: "allHosts ParseIP w c = (Inr hm', \<lparr>hosts = Some hm', hostsTime = modTime\<rparr>) \<and>
      lookupStaticIP ParseIP w c name =
        (Inr (index_map hm' name), \<lparr>hosts = Some hm', hostsTime = modTime\<rparr>)"
    if "Stat w = Inr modTime" "hosts c = None \<or> hostsTime c < modTime"
      "Open w = Inr f" "readHosts ParseIP f = Inr hm'"
    using that by (auto simp: allHosts_def lookupStaticIP_def loadHosts_def)
  have failed: "c' = c" if "allHosts ParseIP w c = (Inl err, c')"
    using that by (auto simp: allHosts_def split: sum.splits if_splits option.splits)
  have same: "snd (lookupStaticIP ParseIP w c name) = snd (allHosts ParseIP w c)"
    by (simp add: lookupStaticIP_def split: prod.split sum.split)
  have cached: "hosts c' = Some hm" if "allHosts ParseIP w c = (Inr hm, c')"
    using that by (auto simp: allHosts_def split: sum.splits if_splits option.splits)
  have again: "allHosts ParseIP w' c' = (Inr hm, c')"
    if "allHosts ParseIP w c = (Inr hm, c')" "Stat w' = Inr modTime'" "\<not> hostsTime c' < modTime'"
    using cached [OF that(1)] that(2,3) by (simp add: allHosts_def)
  from reuse reload failed same again show ?thesis by blast
qed

theorem allHosts_cache_witness:
  "allHosts sample_ParseIP
     \<lparr>FAKE_DNS = Some ''hosts'', Stat = Inr 100, Open = Inr \<lparr>rd_data = hosts_file', rd_fail = None\<rparr>\<rparr>
     \<lparr>hosts = Some sample_table, hostsTime = 100\<rparr> =
     (Inr sample_table, \<lparr>hosts = Some sample_table, hostsTime = 100\<rparr>) \<and>
   allHosts sample_ParseIP
     \<lparr>FAKE_DNS = Some ''hosts'', Stat = Inr 101, Open = Inr \<lparr>rd_data = hosts_file', rd_fail = None\<rparr>\<rparr>
     \<lparr>hosts = Some sample_table, hostsTime = 100\<rparr> =
     (Inr sample_table', \<lparr>hosts = Some sample_table', hostsTime = 101\<rparr>) \<and>
   lookupStaticIP sample_ParseIP
     \<lparr>FAKE_DNS = Some ''hosts'', Stat = Inr 101, Open = Inr \<lparr>rd_data = hosts_file', rd_fail = None\<rparr>\<rparr>
     \<lparr>hosts = Some sample_table, hostsTime = 100\<rparr> ''localhost'' =
     (Inr [[10, 0, 0, 2]], \<lparr>hosts = Some sample_table', hostsTime = 101\<rparr>) \<and>
   allHosts sample_ParseIP
     \<lparr>FAKE_DNS = Some ''hosts'', Stat = Inr 50, Open = Inr \<lparr>rd_data = hosts_file, rd_fail = None\<rparr>\<rparr>
     \<lparr>hosts = Some sample_table', hostsTime = 101\<rparr> =
     (Inr sample_table', \<lparr>hosts = Some sample_table', hostsTime = 101\<rparr>) \<and>
   allHosts sample_ParseIP
     \<lparr>FAKE_DNS = Some ''hosts'', Stat = Inr 102, Open = Inl (ErrOther ''permission denied'')\<rparr>
     \<lparr>hosts = Some sample_table', hostsTime = 101\<rparr> =
     (Inl (ErrOther ''permission denied''), \<lparr>hosts = Some sample_table', hostsTime = 101\<rparr>)"
proof -
  let ?w3 = "\<lparr>FAKE_DNS = Some ''hosts'', Stat = Inr 102,
               Open = Inl (ErrOther ''permission denied'')\<rparr>"
  let ?w0 = "\<lparr>FAKE_DNS = Some ''hosts'', Stat = Inr 100,
               Open = Inr \<lparr>rd_data = hosts_file', rd_fail = None\<rparr>\<rparr>"
  let ?w1 = "\<lparr>FAKE_DNS = Some ''hosts'', Stat = Inr 101,
               Open = Inr \<lparr>rd_data = hosts_file', rd_fail = None\<rparr>\<rparr>"
  let ?w2 = "\<lparr>FAKE_DNS = Some ''hosts'', Stat = Inr 50,
               Open = Inr \<lparr>rd_data = hosts_file, rd_fail = None\<rparr>\<rparr>"
  let ?c0 = "\<lparr>hosts = Some sample_table, hostsTime = 100\<rparr>"
  let ?c1 = "\<lparr>hosts = Some sample_table', hostsTime = 101\<rparr>"
  have a: "allHosts sample_ParseIP ?w0 ?c0 = (Inr sample_table, ?c0)"
    using allHosts_cache [where w = ?w0 and c = ?c0 and modTime = 100 and hm = sample_table
        and ParseIP = sample_ParseIP]
    by simp
  have b: "allHosts sample_ParseIP ?w1 ?c0 = (Inr sample_table', ?c1) \<and>
      lookupStaticIP sample_ParseIP ?w1 ?c0 ''localhost'' = (Inr (index_map sample_table' ''localhost''), ?c1)"
    using allHosts_cache [where w = ?w1 and c = ?c0 and modTime = 101 and hm' = sample_table'
        and ParseIP = sample_ParseIP and f = "\<lparr>rd_data = hosts_file', rd_fail = None\<rparr>"
        and name = "''localhost''"]
      readHosts_hosts_file'
    by simp
  have c: "allHosts sample_ParseIP ?w2 ?c1 = (Inr sample_table', ?c1)"
    using allHosts_cache [where w = ?w1 and c = ?c0 and hm = sample_table' and c' = ?c1
        and w' = ?w2 and modTime' = 50 and ParseIP = sample_ParseIP] b
    by simp
  have "fst (allHosts sample_ParseIP ?w3 ?c1) = Inl (ErrOther ''permission denied'')"
    by (simp add: allHosts_def loadHosts_def)
  then have d: "allHosts sample_ParseIP ?w3 ?c1 = (Inl (ErrOther ''permission denied''), ?c1)"
    using allHosts_cache [where w = ?w3 and c = ?c1 and err = "ErrOther ''permission denied''"
        and c' = "snd (allHosts sample_ParseIP ?w3 ?c1)" and ParseIP = sample_ParseIP]
    by (metis prod.collapse)
  have "index_map sample_table' ''localhost'' = [[10, 0, 0, 2]]"
    by (simp add: index_map_def sample_table'_def)
  with a b c d show ?thesis by simp
qed

section \<open>Publishing and then querying\<close>











section \<open>The query responder: A questions\<close>

lemma a_question_fixed:
  "Qtype q = TypeA \<Longrightarrow> fakeDNS \<noteq> ''hosts'' \<Longrightarrow>
   answer_question ParseIP w ts fakeDNS q (m, c) =
     Inr (m\<lparr>Answer := Answer m @
              [RR_A \<lparr>Hdr_Name = Name q, Rrtype = TypeA, Class = ClassINET, Ttl = 0\<rparr>
                 (ParseIP fakeDNS)]\<rparr>, c)"
  by (simp add: answer_question_def)

lemma a_question_hosts_found:
  "Qtype q = TypeA \<Longrightarrow>
   lookupStaticIP ParseIP w c (TrimRight_dot (Name q)) = (Inr (ip # ips), c') \<Longrightarrow>
   answer_question ParseIP w ts ''hosts'' q (m, c) =
     Inr (m\<lparr>Answer := Answer m @
              [RR_A \<lparr>Hdr_Name = Name q, Rrtype = TypeA, Class = ClassINET, Ttl = 0\<rparr>
                 (Some ip)]\<rparr>, c')"
  by (simp add: answer_question_def)

lemma a_question_hosts_error:
  "Qtype q = TypeA \<Longrightarrow>
   lookupStaticIP ParseIP w c (TrimRight_dot (Name q)) = (Inl err, c') \<Longrightarrow>
   answer_question ParseIP w ts ''hosts'' q (m, c) = Inr (m\<lparr>Rcode := RcodeServerFailure\<rparr>, c')"
  by (simp add: answer_question_def)

lemma a_question_hosts_empty:
  "Qtype q = TypeA \<Longrightarrow>
   lookupStaticIP ParseIP w c (TrimRight_dot (Name q)) = (Inr [], c') \<Longrightarrow>
   answer_question ParseIP w ts ''hosts'' q (m, c) = Inl IndexOutOfRange"
  by (simp add: answer_question_def)

lemma lookupStaticIP_unknown_name:
  "allHosts ParseIP w c = (Inr hm, c') \<Longrightarrow> hm name = None \<Longrightarrow>
   lookupStaticIP ParseIP w c name = (Inr [], c')"
  by (simp add: lookupStaticIP_def index_map_def)

lemma lookupStaticIP_no_file:
  "Stat w = Inl ErrNotExist \<Longrightarrow> lookupStaticIP ParseIP w c name = (Inr [], c)"
  by (simp add: lookupStaticIP_def allHosts_def)

lemma answer_questions_append:
  "answer_questions ParseIP w ts fakeDNS (qs @ qs') st =
     (case answer_questions ParseIP w ts fakeDNS qs st of
        Inl p \<Rightarrow> Inl p
      | Inr st' \<Rightarrow> answer_questions ParseIP w ts fakeDNS qs' st')"
  by (induction qs arbitrary: st) (auto split: sum.splits)

lemma dnsHandler_panic:
  assumes "answer_questions ParseIP w ts (fakeDNS_of w) qs
             (\<lparr>Rcode = RcodeSuccess, Answer = [], Ns = []\<rparr>, c) = Inr st"
    and "answer_question ParseIP w ts (fakeDNS_of w) q st = Inl p"
  shows "dnsHandler ParseIP w ts c (qs @ q # qs') = Inl p"
  using assms by (simp add: dnsHandler_def answer_questions_append)

lemma answer_question_Ns:
  "answer_question ParseIP w ts fakeDNS q (m, c) = Inr (m', c') \<Longrightarrow> Ns m' = Ns m"
  by (auto simp: answer_question_def Let_def
      split: if_splits prod.splits sum.splits list.splits option.splits)

lemma answer_questions_Ns:
  "answer_questions ParseIP w ts fakeDNS qs (m, c) = Inr (m', c') \<Longrightarrow> Ns m' = Ns m"
proof (induction qs arbitrary: m c)
  case Nil
  then show ?case by simp
next
  case (Cons q qs)
  then obtain m1 c1 where step: "answer_question ParseIP w ts fakeDNS q (m, c) = Inr (m1, c1)"
    and rest: "answer_questions ParseIP w ts fakeDNS qs (m1, c1) = Inr (m', c')"
    by (auto split: sum.splits)
  from Cons.IH [OF rest] answer_question_Ns [OF step] show ?case by simp
qed

lemma dnsHandler_authority:
  assumes "dnsHandler ParseIP w ts c r = Inr (m, c')"
  shows "Ns m = [RR_SOA \<lparr>Hdr_Name = ''boulder.invalid.'', Rrtype = TypeSOA,
                          Class = ClassINET, Ttl = 0\<rparr>
                    ''ns.boulder.invalid.'' ''master.boulder.invalid.'' 1 1 1 1 1]"
proof -
  from assms obtain m0 where
    loop: "answer_questions ParseIP w ts (fakeDNS_of w) r
             (\<lparr>Rcode = RcodeSuccess, Answer = [], Ns = []\<rparr>, c) = Inr (m0, c')"
    and m: "m = m0\<lparr>Ns := Ns m0 @ [RR_SOA \<lparr>Hdr_Name = ''boulder.invalid.'', Rrtype = TypeSOA,
                          Class = ClassINET, Ttl = 0\<rparr>
                    ''ns.boulder.invalid.'' ''master.boulder.invalid.'' 1 1 1 1 1]\<rparr>"
    by (auto simp: dnsHandler_def split: sum.splits prod.splits)
  from answer_questions_Ns [OF loop] m show ?thesis by simp
qed

lemma answer_question_completes:
  "fakeDNS \<noteq> ''hosts'' \<Longrightarrow> \<exists>st'. answer_question ParseIP w ts fakeDNS q st = Inr st'"
  by (simp add: answer_question_def Let_def split: option.split)

lemma answer_questions_completes:
  "fakeDNS \<noteq> ''hosts'' \<Longrightarrow> \<exists>st'. answer_questions ParseIP w ts fakeDNS qs st = Inr st'"
proof (induction qs arbitrary: st)
  case Nil
  then show ?case by simp
next
  case (Cons q qs)
  from answer_question_completes [OF Cons.prems] obtain st1
    where "answer_question ParseIP w ts fakeDNS q st = Inr st1" by blast
  with Cons.IH [OF Cons.prems, of st1] show ?case by simp
qed

lemma dnsHandler_completes:
  assumes "fakeDNS_of w \<noteq> ''hosts''"
  shows "\<exists>m c'. dnsHandler ParseIP w ts c r = Inr (m, c')"
proof -
  from answer_questions_completes [OF assms] obtain m0 c0 where
    "answer_questions ParseIP w ts (fakeDNS_of w) r
       (\<lparr>Rcode = RcodeSuccess, Answer = [], Ns = []\<rparr>, c) = Inr (m0, c0)"
    by (metis surj_pair)
  then show ?thesis by (simp add: dnsHandler_def)
qed

text \<open>
  C2, as amended. For every A question: when \<open>FAKE_DNS\<close> is set to a non-empty string other
  than \<open>hosts\<close>, the answer is one A record whose address is \<open>net.ParseIP\<close> of that string,
  so exactly that address when the string is a literal address; when it is set to \<open>hosts\<close>
  and the hosts resolver finds addresses for the name without its trailing dots, the answer
  is one A record with the first of them; when it is unset or empty, the answer is one A
  record with \<open>net.ParseIP("127.0.0.1")\<close> and the hosts resolver is not consulted. It is
  the launch script that turns an unset or empty variable into \<open>hosts\<close> before it starts
  the container.
\<close>

theorem a_question_override:
  assumes "Qtype q = TypeA"
  shows
    "(FAKE_DNS w = Some s \<and> s \<noteq> [] \<and> s \<noteq> ''hosts'' \<longrightarrow>
        answer_question ParseIP w ts (fakeDNS_of w) q (m, c) =
          Inr (m\<lparr>Answer := Answer m @
                   [RR_A \<lparr>Hdr_Name = Name q, Rrtype = TypeA, Class = ClassINET, Ttl = 0\<rparr>
                      (ParseIP s)]\<rparr>, c)) \<and>
     (FAKE_DNS w = Some ''hosts'' \<and>
        lookupStaticIP ParseIP w c (TrimRight_dot (Name q)) = (Inr (ip # ips), c') \<longrightarrow>
        answer_question ParseIP w ts (fakeDNS_of w) q (m, c) =
          Inr (m\<lparr>Answer := Answer m @
                   [RR_A \<lparr>Hdr_Name = Name q, Rrtype = TypeA, Class = ClassINET, Ttl = 0\<rparr>
                      (Some ip)]\<rparr>, c')) \<and>
     (FAKE_DNS w = None \<or> FAKE_DNS w = Some [] \<longrightarrow>
        answer_question ParseIP w ts (fakeDNS_of w) q (m, c) =
          Inr (m\<lparr>Answer := Answer m @
                   [RR_A \<lparr>Hdr_Name = Name q, Rrtype = TypeA, Class = ClassINET, Ttl = 0\<rparr>
                      (ParseIP ''127.0.0.1'')]\<rparr>, c)) \<and>
     (FAKE_DNS w = run_docker_FAKE_DNS v \<longrightarrow>
        (fakeDNS_of w = ''hosts'') = (Getenv v = [] \<or> Getenv v = ''hosts''))"
proof -
  have fixed: "answer_question ParseIP w ts (fakeDNS_of w) q (m, c) =
          Inr (m\<lparr>Answer := Answer m @
                   [RR_A \<lparr>Hdr_Name = Name q, Rrtype = TypeA, Class = ClassINET, Ttl = 0\<rparr>
                      (ParseIP s)]\<rparr>, c)"
    if "FAKE_DNS w = Some s" "s \<noteq> []" "s \<noteq> ''hosts''"
    using that a_question_fixed [OF assms, of s]
    by (simp add: fakeDNS_of_def Getenv_def)
  have table: "answer_question ParseIP w ts (fakeDNS_of w) q (m, c) =
          Inr (m\<lparr>Answer := Answer m @
                   [RR_A \<lparr>Hdr_Name = Name q, Rrtype = TypeA, Class = ClassINET, Ttl = 0\<rparr>
                      (Some ip)]\<rparr>, c')"
    if "FAKE_DNS w = Some ''hosts''"
      "lookupStaticIP ParseIP w c (TrimRight_dot (Name q)) = (Inr (ip # ips), c')"
    using that a_question_hosts_found [OF assms that(2)]
    by (simp add: fakeDNS_of_def Getenv_def)
  have unset: "answer_question ParseIP w ts (fakeDNS_of w) q (m, c) =
          Inr (m\<lparr>Answer := Answer m @
                   [RR_A \<lparr>Hdr_Name = Name q, Rrtype = TypeA, Class = ClassINET, Ttl = 0\<rparr>
                      (ParseIP ''127.0.0.1'')]\<rparr>, c)"
    if "FAKE_DNS w = None \<or> FAKE_DNS w = Some []"
    using that a_question_fixed [OF assms, of "''127.0.0.1''"]
    by (auto simp: fakeDNS_of_def Getenv_def)
  have script: "(fakeDNS_of w = ''hosts'') = (Getenv v = [] \<or> Getenv v = ''hosts'')"
    if "FAKE_DNS w = run_docker_FAKE_DNS v"
    using that by (auto simp: fakeDNS_of_def run_docker_FAKE_DNS_def Getenv_def)
  from fixed table unset script show ?thesis by blast
qed

lemma TrimRight_dot_samples:
  "TrimRight_dot ''localhost.'' = ''localhost''"
  "TrimRight_dot ''nohost.example.'' = ''nohost.example''"
  "TrimRight_dot ''example.org.'' = ''example.org''"
  by (simp_all add: TrimRight_dot_def)

lemma lookupStaticIP_samples:
  "lookupStaticIP sample_ParseIP
     \<lparr>FAKE_DNS = Some ''hosts'', Stat = Inr 100,
       Open = Inr \<lparr>rd_data = hosts_file', rd_fail = None\<rparr>\<rparr>
     \<lparr>hosts = None, hostsTime = 0\<rparr> ''localhost'' =
     (Inr [[10, 0, 0, 2]], \<lparr>hosts = Some sample_table', hostsTime = 100\<rparr>)"
  "lookupStaticIP sample_ParseIP
     \<lparr>FAKE_DNS = Some ''hosts'', Stat = Inr 100,
       Open = Inr \<lparr>rd_data = hosts_file', rd_fail = None\<rparr>\<rparr>
     \<lparr>hosts = None, hostsTime = 0\<rparr> ''nohost.example'' =
     (Inr [], \<lparr>hosts = Some sample_table', hostsTime = 100\<rparr>)"
  by (simp_all add: lookupStaticIP_def allHosts_def loadHosts_def readHosts_hosts_file'
      index_map_def sample_table'_def)

theorem a_question_override_witness:
  "answer_question sample_ParseIP
     \<lparr>FAKE_DNS = Some ''10.0.0.1'', Stat = Inr 100,
       Open = Inr \<lparr>rd_data = hosts_file', rd_fail = None\<rparr>\<rparr>
     \<lparr>txtRecords = Map.empty\<rparr> (fakeDNS_of \<lparr>FAKE_DNS = Some ''10.0.0.1'', Stat = Inr 100, Open = Inr \<lparr>rd_data = hosts_file', rd_fail = None\<rparr>\<rparr>)
     \<lparr>Name = ''localhost.'', Qtype = TypeA, Qclass = ClassINET\<rparr>
     (\<lparr>Rcode = RcodeSuccess, Answer = [], Ns = []\<rparr>, \<lparr>hosts = None, hostsTime = 0\<rparr>) =
     Inr (\<lparr>Rcode = RcodeSuccess, Answer = [], Ns = []\<rparr>\<lparr>Answer := Answer \<lparr>Rcode = RcodeSuccess, Answer = [], Ns = []\<rparr> @ [RR_A \<lparr>Hdr_Name = ''localhost.'', Rrtype = TypeA, Class = ClassINET, Ttl = 0\<rparr> (Some [10, 0, 0, 1])]\<rparr>,
          \<lparr>hosts = None, hostsTime = 0\<rparr>) \<and>
   answer_question sample_ParseIP
     \<lparr>FAKE_DNS = Some ''hosts'', Stat = Inr 100,
       Open = Inr \<lparr>rd_data = hosts_file', rd_fail = None\<rparr>\<rparr>
     \<lparr>txtRecords = Map.empty\<rparr> (fakeDNS_of \<lparr>FAKE_DNS = Some ''hosts'', Stat = Inr 100, Open = Inr \<lparr>rd_data = hosts_file', rd_fail = None\<rparr>\<rparr>)
     \<lparr>Name = ''localhost.'', Qtype = TypeA, Qclass = ClassINET\<rparr>
     (\<lparr>Rcode = RcodeSuccess, Answer = [], Ns = []\<rparr>, \<lparr>hosts = None, hostsTime = 0\<rparr>) =
     Inr (\<lparr>Rcode = RcodeSuccess, Answer = [], Ns = []\<rparr>\<lparr>Answer := Answer \<lparr>Rcode = RcodeSuccess, Answer = [], Ns = []\<rparr> @ [RR_A \<lparr>Hdr_Name = ''localhost.'', Rrtype = TypeA, Class = ClassINET, Ttl = 0\<rparr> (Some [10, 0, 0, 2])]\<rparr>,
          \<lparr>hosts = Some sample_table', hostsTime = 100\<rparr>) \<and>
   answer_question sample_ParseIP
     \<lparr>FAKE_DNS = None, Stat = Inr 100,
       Open = Inr \<lparr>rd_data = hosts_file', rd_fail = None\<rparr>\<rparr>
     \<lparr>txtRecords = Map.empty\<rparr> (fakeDNS_of \<lparr>FAKE_DNS = None, Stat = Inr 100, Open = Inr \<lparr>rd_data = hosts_file', rd_fail = None\<rparr>\<rparr>)
     \<lparr>Name = ''localhost.'', Qtype = TypeA, Qclass = ClassINET\<rparr>
     (\<lparr>Rcode = RcodeSuccess, Answer = [], Ns = []\<rparr>, \<lparr>hosts = None, hostsTime = 0\<rparr>) =
     Inr (\<lparr>Rcode = RcodeSuccess, Answer = [], Ns = []\<rparr>\<lparr>Answer := Answer \<lparr>Rcode = RcodeSuccess, Answer = [], Ns = []\<rparr> @ [RR_A \<lparr>Hdr_Name = ''localhost.'', Rrtype = TypeA, Class = ClassINET, Ttl = 0\<rparr> (Some [127, 0, 0, 1])]\<rparr>,
          \<lparr>hosts = None, hostsTime = 0\<rparr>) \<and>
   fakeDNS_of \<lparr>FAKE_DNS = run_docker_FAKE_DNS None, Stat = Inr 100, Open = Inr \<lparr>rd_data = hosts_file', rd_fail = None\<rparr>\<rparr> = ''hosts''"
proof -
  have a: "answer_question sample_ParseIP
     \<lparr>FAKE_DNS = Some ''10.0.0.1'', Stat = Inr 100,
       Open = Inr \<lparr>rd_data = hosts_file', rd_fail = None\<rparr>\<rparr>
     \<lparr>txtRecords = Map.empty\<rparr> (fakeDNS_of \<lparr>FAKE_DNS = Some ''10.0.0.1'', Stat = Inr 100, Open = Inr \<lparr>rd_data = hosts_file', rd_fail = None\<rparr>\<rparr>)
     \<lparr>Name = ''localhost.'', Qtype = TypeA, Qclass = ClassINET\<rparr>
     (\<lparr>Rcode = RcodeSuccess, Answer = [], Ns = []\<rparr>, \<lparr>hosts = None, hostsTime = 0\<rparr>) =
     Inr (\<lparr>Rcode = RcodeSuccess, Answer = [], Ns = []\<rparr>\<lparr>Answer := Answer \<lparr>Rcode = RcodeSuccess, Answer = [], Ns = []\<rparr> @ [RR_A \<lparr>Hdr_Name = ''localhost.'', Rrtype = TypeA, Class = ClassINET, Ttl = 0\<rparr> (Some [10, 0, 0, 1])]\<rparr>,
          \<lparr>hosts = None, hostsTime = 0\<rparr>)"
    using a_question_override [where q = "\<lparr>Name = ''localhost.'', Qtype = TypeA, Qclass = ClassINET\<rparr>"
        and ParseIP = sample_ParseIP
        and w = "\<lparr>FAKE_DNS = Some ''10.0.0.1'', Stat = Inr 100,
       Open = Inr \<lparr>rd_data = hosts_file', rd_fail = None\<rparr>\<rparr>"
        and ts = "\<lparr>txtRecords = Map.empty\<rparr>"
        and m = "\<lparr>Rcode = RcodeSuccess, Answer = [], Ns = []\<rparr>" and c = "\<lparr>hosts = None, hostsTime = 0\<rparr>" and s = "''10.0.0.1''"]
    by (simp add: sample_ParseIP_def)
  have b: "answer_question sample_ParseIP
     \<lparr>FAKE_DNS = Some ''hosts'', Stat = Inr 100,
       Open = Inr \<lparr>rd_data = hosts_file', rd_fail = None\<rparr>\<rparr>
     \<lparr>txtRecords = Map.empty\<rparr> (fakeDNS_of \<lparr>FAKE_DNS = Some ''hosts'', Stat = Inr 100, Open = Inr \<lparr>rd_data = hosts_file', rd_fail = None\<rparr>\<rparr>)
     \<lparr>Name = ''localhost.'', Qtype = TypeA, Qclass = ClassINET\<rparr>
     (\<lparr>Rcode = RcodeSuccess, Answer = [], Ns = []\<rparr>, \<lparr>hosts = None, hostsTime = 0\<rparr>) =
     Inr (\<lparr>Rcode = RcodeSuccess, Answer = [], Ns = []\<rparr>\<lparr>Answer := Answer \<lparr>Rcode = RcodeSuccess, Answer = [], Ns = []\<rparr> @ [RR_A \<lparr>Hdr_Name = ''localhost.'', Rrtype = TypeA, Class = ClassINET, Ttl = 0\<rparr> (Some [10, 0, 0, 2])]\<rparr>,
          \<lparr>hosts = Some sample_table', hostsTime = 100\<rparr>)"
    using a_question_override [where q = "\<lparr>Name = ''localhost.'', Qtype = TypeA, Qclass = ClassINET\<rparr>"
        and ParseIP = sample_ParseIP
        and w = "\<lparr>FAKE_DNS = Some ''hosts'', Stat = Inr 100,
       Open = Inr \<lparr>rd_data = hosts_file', rd_fail = None\<rparr>\<rparr>"
        and ts = "\<lparr>txtRecords = Map.empty\<rparr>"
        and m = "\<lparr>Rcode = RcodeSuccess, Answer = [], Ns = []\<rparr>" and c = "\<lparr>hosts = None, hostsTime = 0\<rparr>" and ip = "[10, 0, 0, 2]" and ips = "[]"
        and c' = "\<lparr>hosts = Some sample_table', hostsTime = 100\<rparr>"]
      lookupStaticIP_samples(1)
    by (simp add: TrimRight_dot_samples)
  have c: "answer_question sample_ParseIP
     \<lparr>FAKE_DNS = None, Stat = Inr 100,
       Open = Inr \<lparr>rd_data = hosts_file', rd_fail = None\<rparr>\<rparr>
     \<lparr>txtRecords = Map.empty\<rparr> (fakeDNS_of \<lparr>FAKE_DNS = None, Stat = Inr 100, Open = Inr \<lparr>rd_data = hosts_file', rd_fail = None\<rparr>\<rparr>)
     \<lparr>Name = ''localhost.'', Qtype = TypeA, Qclass = ClassINET\<rparr>
     (\<lparr>Rcode = RcodeSuccess, Answer = [], Ns = []\<rparr>, \<lparr>hosts = None, hostsTime = 0\<rparr>) =
     Inr (\<lparr>Rcode = RcodeSuccess, Answer = [], Ns = []\<rparr>\<lparr>Answer := Answer \<lparr>Rcode = RcodeSuccess, Answer = [], Ns = []\<rparr> @ [RR_A \<lparr>Hdr_Name = ''localhost.'', Rrtype = TypeA, Class = ClassINET, Ttl = 0\<rparr> (Some [127, 0, 0, 1])]\<rparr>,
          \<lparr>hosts = None, hostsTime = 0\<rparr>)"
    using a_question_override [where q = "\<lparr>Name = ''localhost.'', Qtype = TypeA, Qclass = ClassINET\<rparr>"
        and ParseIP = sample_ParseIP
        and w = "\<lparr>FAKE_DNS = None, Stat = Inr 100,
       Open = Inr \<lparr>rd_data = hosts_file', rd_fail = None\<rparr>\<rparr>"
        and ts = "\<lparr>txtRecords = Map.empty\<rparr>"
        and m = "\<lparr>Rcode = RcodeSuccess, Answer = [], Ns = []\<rparr>" and c = "\<lparr>hosts = None, hostsTime = 0\<rparr>"]
    by (simp add: sample_ParseIP_def)
  have d: "fakeDNS_of \<lparr>FAKE_DNS = run_docker_FAKE_DNS None, Stat = Inr 100, Open = Inr \<lparr>rd_data = hosts_file', rd_fail = None\<rparr>\<rparr> = ''hosts''"
  proof -
    have "(fakeDNS_of \<lparr>FAKE_DNS = run_docker_FAKE_DNS None, Stat = Inr 100, Open = Inr \<lparr>rd_data = hosts_file', rd_fail = None\<rparr>\<rparr> = ''hosts'') =
        (Getenv None = [] \<or> Getenv None = ''hosts'')"
      by (rule a_question_override [where q = "\<lparr>Name = ''localhost.'', Qtype = TypeA, Qclass = ClassINET\<rparr>"
            and v = None, THEN conjunct2, THEN conjunct2, THEN conjunct2, THEN mp])
        simp_all
    then show ?thesis by (simp add: Getenv_def)
  qed
  from a b c d show ?thesis by (intro conjI)
qed

text \<open>
  C2 as stated fails where it says that an unset variable selects the hosts resolver: with
  \<open>FAKE_DNS\<close> unset and a hosts file that maps \<open>localhost\<close> to 10.0.0.2, the A question for
  \<open>localhost.\<close> is answered with 127.0.0.1 and the hosts cache stays empty, while with
  \<open>FAKE_DNS=hosts\<close> the same question is answered with 10.0.0.2 from the hosts file.
\<close>

theorem unset_FAKE_DNS_answers_loopback:
  "dnsHandler sample_ParseIP
     \<lparr>FAKE_DNS = None, Stat = Inr 100,
       Open = Inr \<lparr>rd_data = hosts_file', rd_fail = None\<rparr>\<rparr>
     \<lparr>txtRecords = Map.empty\<rparr> \<lparr>hosts = None, hostsTime = 0\<rparr>
     [\<lparr>Name = ''localhost.'', Qtype = TypeA, Qclass = ClassINET\<rparr>] =
     Inr (\<lparr>Rcode = RcodeSuccess,
            Answer = [RR_A \<lparr>Hdr_Name = ''localhost.'', Rrtype = TypeA, Class = ClassINET, Ttl = 0\<rparr> (Some [127, 0, 0, 1])],
            Ns = [RR_SOA \<lparr>Hdr_Name = ''boulder.invalid.'', Rrtype = TypeSOA, Class = ClassINET,
                         Ttl = 0\<rparr>
                   ''ns.boulder.invalid.'' ''master.boulder.invalid.'' 1 1 1 1 1]\<rparr>,
          \<lparr>hosts = None, hostsTime = 0\<rparr>) \<and>
   dnsHandler sample_ParseIP
     \<lparr>FAKE_DNS = Some ''hosts'', Stat = Inr 100,
       Open = Inr \<lparr>rd_data = hosts_file', rd_fail = None\<rparr>\<rparr>
     \<lparr>txtRecords = Map.empty\<rparr> \<lparr>hosts = None, hostsTime = 0\<rparr>
     [\<lparr>Name = ''localhost.'', Qtype = TypeA, Qclass = ClassINET\<rparr>] =
     Inr (\<lparr>Rcode = RcodeSuccess,
            Answer = [RR_A \<lparr>Hdr_Name = ''localhost.'', Rrtype = TypeA, Class = ClassINET, Ttl = 0\<rparr> (Some [10, 0, 0, 2])],
            Ns = [RR_SOA \<lparr>Hdr_Name = ''boulder.invalid.'', Rrtype = TypeSOA, Class = ClassINET,
                         Ttl = 0\<rparr>
                   ''ns.boulder.invalid.'' ''master.boulder.invalid.'' 1 1 1 1 1]\<rparr>,
          \<lparr>hosts = Some sample_table', hostsTime = 100\<rparr>)"
  by (simp add: dnsHandler_def fakeDNS_of_def Getenv_def a_question_fixed a_question_hosts_found
      lookupStaticIP_samples TrimRight_dot_samples sample_ParseIP_def)

section \<open>Names without an address\<close>

text \<open>
  C1 at a failing input. \<open>FAKE_DNS=hosts\<close>, the hosts file maps \<open>localhost\<close> only, and the
  message asks for the A records of \<open>nohost.example.\<close> and of \<open>localhost.\<close>. The resolver
  returns no address and no error for the first name, \<open>ips[0]\<close> is out of range, and the
  handler ends in a panic: no response code is set and the second question is never
  answered, although the same question alone is answered from the hosts file.
\<close>

theorem unknown_name_panics:
  "dnsHandler sample_ParseIP
     \<lparr>FAKE_DNS = Some ''hosts'', Stat = Inr 100,
       Open = Inr \<lparr>rd_data = hosts_file', rd_fail = None\<rparr>\<rparr>
     \<lparr>txtRecords = Map.empty\<rparr> \<lparr>hosts = None, hostsTime = 0\<rparr>
     [\<lparr>Name = ''nohost.example.'', Qtype = TypeA, Qclass = ClassINET\<rparr>,
      \<lparr>Name = ''localhost.'', Qtype = TypeA, Qclass = ClassINET\<rparr>] = Inl IndexOutOfRange \<and>
   dnsHandler sample_ParseIP
     \<lparr>FAKE_DNS = Some ''hosts'', Stat = Inr 100,
       Open = Inr \<lparr>rd_data = hosts_file', rd_fail = None\<rparr>\<rparr>
     \<lparr>txtRecords = Map.empty\<rparr> \<lparr>hosts = None, hostsTime = 0\<rparr>
     [\<lparr>Name = ''localhost.'', Qtype = TypeA, Qclass = ClassINET\<rparr>] =
     Inr (\<lparr>Rcode = RcodeSuccess,
            Answer = [RR_A \<lparr>Hdr_Name = ''localhost.'', Rrtype = TypeA, Class = ClassINET, Ttl = 0\<rparr> (Some [10, 0, 0, 2])],
            Ns = [RR_SOA \<lparr>Hdr_Name = ''boulder.invalid.'', Rrtype = TypeSOA, Class = ClassINET,
                         Ttl = 0\<rparr>
                   ''ns.boulder.invalid.'' ''master.boulder.invalid.'' 1 1 1 1 1]\<rparr>,
          \<lparr>hosts = Some sample_table', hostsTime = 100\<rparr>)"
  by (simp add: dnsHandler_def fakeDNS_of_def Getenv_def a_question_hosts_empty
      a_question_hosts_found lookupStaticIP_samples TrimRight_dot_samples)

text \<open>
  C9 at a failing input. \<open>FAKE_DNS=hosts\<close>, there is no hosts file, and the message asks for
  the MX and the A record of \<open>example.org.\<close>. The MX answer is built, the A question finds no
  address, and the handler ends in the panic of \<open>ips[0]\<close> before the authority record is
  appended and before any reply is written.
\<close>

theorem no_reply_without_address:
  "dnsHandler sample_ParseIP
     \<lparr>FAKE_DNS = Some ''hosts'', Stat = Inl ErrNotExist, Open = Inl ErrNotExist\<rparr>
     \<lparr>txtRecords = Map.empty\<rparr> \<lparr>hosts = None, hostsTime = 0\<rparr>
     [\<lparr>Name = ''example.org.'', Qtype = TypeMX, Qclass = ClassINET\<rparr>,
      \<lparr>Name = ''example.org.'', Qtype = TypeA, Qclass = ClassINET\<rparr>] = Inl IndexOutOfRange"
  by (simp add: dnsHandler_def fakeDNS_of_def Getenv_def answer_question_def lookupStaticIP_def
      allHosts_def TypeA_def TypeMX_def)

section \<open>Parsing the hosts file\<close>

lemma ReadString_line:
  assumes "CHR 0x0A \<notin> set l"
  shows "ReadString \<lparr>rd_data = l @ CHR 0x0A # tail_bytes, rd_fail = e\<rparr> =
           (l @ [CHR 0x0A], None, \<lparr>rd_data = tail_bytes, rd_fail = e\<rparr>)"
proof -
  have "takeWhile (\<lambda>c. c \<noteq> CHR 0x0A) (l @ CHR 0x0A # tail_bytes) = l"
    using assms by (induction l) auto
  moreover have "dropWhile (\<lambda>c. c \<noteq> CHR 0x0A) (l @ CHR 0x0A # tail_bytes) = CHR 0x0A # tail_bytes"
    using assms by (induction l) auto
  ultimately show ?thesis by (simp add: ReadString_def Let_def)
qed

lemma ReadString_rest:
  assumes "CHR 0x0A \<notin> set rest"
  shows "ReadString \<lparr>rd_data = rest, rd_fail = e\<rparr> =
           (rest, Some (case e of None \<Rightarrow> EOF | Some err \<Rightarrow> err), \<lparr>rd_data = [], rd_fail = e\<rparr>)"
  using assms by (simp add: ReadString_def Let_def)

text \<open>
  The loop of \<open>readHosts\<close> on a file of newline-terminated lines \<open>ls\<close> followed by bytes
  \<open>rest\<close> without a newline: every terminated line goes through the loop body in file
  order; \<open>rest\<close> is read together with \<open>io.EOF\<close> and is not parsed.
\<close>

lemma readHosts_loop_lines:
  assumes "\<forall>l \<in> set ls. CHR 0x0A \<notin> set l" and "CHR 0x0A \<notin> set rest"
  shows "readHosts_loop ParseIP
           \<lparr>rd_data = concat (map (\<lambda>l. l @ [CHR 0x0A]) ls) @ rest, rd_fail = None\<rparr> ret =
         Inr (foldl (\<lambda>ret l. hosts_line ParseIP (l @ [CHR 0x0A]) ret) ret ls)"
  using assms
proof (induction ls arbitrary: ret)
  case Nil
  then show ?case
    by (subst readHosts_loop.simps) (simp add: ReadString_rest)
next
  case (Cons l ls)
  from Cons.prems have l: "CHR 0x0A \<notin> set l" by simp
  have "readHosts_loop ParseIP
          \<lparr>rd_data = l @ CHR 0x0A # (concat (map (\<lambda>l. l @ [CHR 0x0A]) ls) @ rest),
             rd_fail = None\<rparr> ret =
        readHosts_loop ParseIP
          \<lparr>rd_data = concat (map (\<lambda>l. l @ [CHR 0x0A]) ls) @ rest, rd_fail = None\<rparr>
          (hosts_line ParseIP (l @ [CHR 0x0A]) ret)"
    by (subst readHosts_loop.simps) (simp add: ReadString_line [OF l])
  with Cons.IH [of "hosts_line ParseIP (l @ [CHR 0x0A]) ret"] Cons.prems show ?case
    by simp
qed

lemma readHosts_lines:
  assumes "\<forall>l \<in> set ls. CHR 0x0A \<notin> set l" and "CHR 0x0A \<notin> set rest"
  shows "readHosts ParseIP
           \<lparr>rd_data = concat (map (\<lambda>l. l @ [CHR 0x0A]) ls) @ rest, rd_fail = None\<rparr> =
         Inr (foldl (\<lambda>ret l. hosts_line ParseIP (l @ [CHR 0x0A]) ret) Map.empty ls)"
  unfolding readHosts_def by (rule readHosts_loop_lines [OF assms])

text \<open>
  The loop body on one line: blank lines, comment lines and lines whose first field is no
  address leave the table as it is; any other line adds the address once to every further
  field, after the addresses the name already has.
\<close>

lemma hosts_line_skipped:
  "TrimSpace l = [] \<or> hd (TrimSpace l) = CHR ''#'' \<or> ParseIP (hd (Split (TrimSpace l))) = None
     \<Longrightarrow> hosts_line ParseIP l ret = ret"
  by (auto simp: hosts_line_def Let_def)

lemma hosts_line_added:
  "TrimSpace l \<noteq> [] \<Longrightarrow> hd (TrimSpace l) \<noteq> CHR ''#'' \<Longrightarrow>
   ParseIP (hd (Split (TrimSpace l))) = Some addr \<Longrightarrow>
   hosts_line ParseIP l ret = add_names addr (tl (Split (TrimSpace l))) ret"
  by (simp add: hosts_line_def Let_def)

lemma index_map_add_names:
  "index_map (add_names addr names ret) name =
     index_map ret name @ replicate (count_list names name) addr"
  by (induction names arbitrary: ret) (auto simp: index_map_def replicate_append_same)

text \<open>
  C8 at a failing input. A hosts file whose only line \<open>10.0.0.2 tail\<close> ends with a newline
  maps \<open>tail\<close> to that address; the same line without the final newline is read together
  with \<open>io.EOF\<close>, the loop stops before parsing it, and the table is empty. In the sample
  file, whose last line is that unterminated line, \<open>tail\<close> has no address either.
\<close>

theorem unterminated_line_not_parsed:
  "readHosts sample_ParseIP \<lparr>rd_data = ''10.0.0.2 tail'' @ [CHR 0x0A], rd_fail = None\<rparr> =
     Inr [''tail'' \<mapsto> [[10, 0, 0, 2]]] \<and>
   readHosts sample_ParseIP \<lparr>rd_data = ''10.0.0.2 tail'', rd_fail = None\<rparr> = Inr Map.empty \<and>
   readHosts sample_ParseIP \<lparr>rd_data = hosts_file, rd_fail = None\<rparr> = Inr sample_table \<and>
   sample_table ''tail'' = None"
  by (simp add: readHosts_def hosts_file_def ReadString_def Let_def hosts_line_def TrimSpace_def
      space_runes_def Split_def reSpace_def sample_ParseIP_def index_map_def sample_table_def
      fun_upd_twist)

end
